theory Spec2Isabelle
  imports Complex_Main "HOL-Library.AList" "HOL-Library.Multiset"
begin

section \<open>JavaScript values read by the handlers\<close>

text \<open>
  A JavaScript Number is a double: a finite value (a real number here; the handlers only
  test it against zero, floor it and print it), NaN or an infinity. Negative zero behaves
  as zero in every operation server.js applies (it is falsy and prints as 0), so
  \<open>Finite 0\<close> stands for both.
\<close>

datatype jsnum = Finite real | NaN | PosInfinity | NegInfinity

text \<open>
  A value of the parsed JSON body. \<open>Undefined\<close> is a field missing from the body.
  The conversion of a string, an array or an object to a Number is the runtime's
  (ECMAScript ToNumber), not the repository's, so such a value carries the Number it
  converts to. Strings are lists of 8-bit characters: the code units below 256.
\<close>

datatype jsval =
    Undefined
  | Null
  | Boolean bool
  | Number jsnum
  | String string jsnum
  | Object jsnum

fun truthy :: "jsval \<Rightarrow> bool" where
  "truthy Undefined = False"
| "truthy Null = False"
| "truthy (Boolean b) = b"
| "truthy (Number (Finite r)) = (r \<noteq> 0)"
| "truthy (Number NaN) = False"
| "truthy (Number PosInfinity) = True"
| "truthy (Number NegInfinity) = True"
| "truthy (String s n) = (s \<noteq> [])"
| "truthy (Object n) = True"

text \<open>\<open>a || b\<close>\<close>

definition js_or :: "jsval \<Rightarrow> jsval \<Rightarrow> jsval" where
  "js_or a b = (if truthy a then a else b)"

fun ToNumber :: "jsval \<Rightarrow> jsnum" where
  "ToNumber Undefined = NaN"
| "ToNumber Null = Finite 0"
| "ToNumber (Boolean b) = Finite (if b then 1 else 0)"
| "ToNumber (Number n) = n"
| "ToNumber (String s n) = n"
| "ToNumber (Object n) = n"

definition Math_floor :: "jsval \<Rightarrow> jsnum" where
  "Math_floor v =
     (case ToNumber v of
        Finite r \<Rightarrow> Finite (of_int \<lfloor>r\<rfloor>)
      | n \<Rightarrow> n)"

subsection \<open>String operations\<close>

text \<open>White space and line terminators of ECMAScript among the code units below 256.\<close>

definition isWhiteSpace :: "char \<Rightarrow> bool" where
  "isWhiteSpace c = (of_char c \<in> {9, 10, 11, 12, 13, 32, 160 :: nat})"

definition trim :: "string \<Rightarrow> string" where
  "trim s = rev (dropWhile isWhiteSpace (rev (dropWhile isWhiteSpace s)))"

definition lower_char :: "char \<Rightarrow> char" where
  "lower_char c =
     (let n = of_char c :: nat
      in if (65 \<le> n \<and> n \<le> 90) \<or> (192 \<le> n \<and> n \<le> 222 \<and> n \<noteq> 215)
         then char_of (n + 32) else c)"

definition toLowerCase :: "string \<Rightarrow> string" where
  "toLowerCase s = map lower_char s"

text \<open>The character class \<open>[a-z0-9_]\<close> and the test of \<open>/^[a-z0-9_]+$/\<close>.\<close>

definition username_char :: "char \<Rightarrow> bool" where
  "username_char c =
     (let n = of_char c :: nat
      in (97 \<le> n \<and> n \<le> 122) \<or> (48 \<le> n \<and> n \<le> 57) \<or> n = 95)"

definition regex_test :: "string \<Rightarrow> bool" where
  "regex_test s = (s \<noteq> [] \<and> list_all username_char s)"

subsection \<open>parseInt\<close>

text \<open>
  \<open>parseInt(string)\<close> with no radix: leading white space is skipped, a sign is read, a
  prefix \<open>0x\<close> or \<open>0X\<close> selects base 16, and the longest run of digits is converted;
  \<open>None\<close> is NaN. The result is the exact integer: the handler clamps it into
  1..100 at once, which the rounding of a large value to a double does not change.
\<close>

definition digit_value :: "char \<Rightarrow> nat option" where
  "digit_value c =
     (let n = of_char c :: nat
      in if 48 \<le> n \<and> n \<le> 57 then Some (n - 48)
         else if 97 \<le> n \<and> n \<le> 122 then Some (n - 87)
         else if 65 \<le> n \<and> n \<le> 90 then Some (n - 55)
         else None)"

definition is_digit :: "nat \<Rightarrow> char \<Rightarrow> bool" where
  "is_digit radix c = (case digit_value c of Some d \<Rightarrow> d < radix | None \<Rightarrow> False)"

definition digits_value :: "nat \<Rightarrow> string \<Rightarrow> nat" where
  "digits_value radix ds = foldl (\<lambda>n c. n * radix + the (digit_value c)) 0 ds"

definition parseInt :: "string \<Rightarrow> int option" where
  "parseInt s =
     (let s1 = dropWhile isWhiteSpace s;
          neg = (case s1 of c # _ \<Rightarrow> c = CHR ''-'' | [] \<Rightarrow> False);
          s2 = (case s1 of c # r \<Rightarrow> if c = CHR ''-'' \<or> c = CHR ''+'' then r else s1 | [] \<Rightarrow> s1);
          hex = (case s2 of a # b # _ \<Rightarrow> a = CHR ''0'' \<and> (b = CHR ''x'' \<or> b = CHR ''X'') | _ \<Rightarrow> False);
          radix = (if hex then 16 else 10);
          s3 = (if hex then drop 2 s2 else s2);
          ds = takeWhile (is_digit radix) s3
      in if ds = [] then None
         else Some ((if neg then - 1 else 1) * int (digits_value radix ds)))"

section \<open>The leaderboard table\<close>

text \<open>
  A row of table \<open>leaderboard\<close> without the serial \<open>id\<close>, which no statement reads.
  The table is the list of its rows in storage order; \<open>username\<close> is UNIQUE.
\<close>

record row =
  username :: string
  best_score :: int
  total_earned :: int
  prestiges :: int
  clicks :: int
  play_time :: int
  updated_at :: int

type_synonym table = "row list"

text \<open>The columns the two SELECT statements return.\<close>

type_synonym entry = "string \<times> int \<times> int \<times> int \<times> int \<times> int"

definition cols :: "row \<Rightarrow> entry" where
  "cols r = (username r, best_score r, total_earned r, prestiges r, clicks r, play_time r)"

definition numeric_fields :: "(row \<Rightarrow> int) list" where
  "numeric_fields = [best_score, total_earned, prestiges, clicks, play_time]"

definition lookup :: "string \<Rightarrow> table \<Rightarrow> row option" where
  "lookup u tbl = find (\<lambda>r. username r = u) tbl"

text \<open>
  \<open>INSERT ... ON CONFLICT (username) DO UPDATE SET c = GREATEST(leaderboard.c, EXCLUDED.c),
  updated_at = NOW()\<close>, where \<open>e\<close> is the row proposed for insertion (EXCLUDED).
\<close>

definition merge_row :: "row \<Rightarrow> row \<Rightarrow> row" where
  "merge_row r e =
     r\<lparr>best_score := max (best_score r) (best_score e),
       total_earned := max (total_earned r) (total_earned e),
       prestiges := max (prestiges r) (prestiges e),
       clicks := max (clicks r) (clicks e),
       play_time := max (play_time r) (play_time e),
       updated_at := updated_at e\<rparr>"

fun upsert :: "row \<Rightarrow> table \<Rightarrow> table" where
  "upsert e [] = [e]"
| "upsert e (r # rs) =
     (if username r = username e then merge_row r e # rs else r # upsert e rs)"


text \<open>
  A Number parameter reaches PostgreSQL as the text \<open>val.toString()\<close> and is read as
  BIGINT (64 bits) or INT (32 bits). Up to \<open>2^53\<close> an integral double prints as its own
  digits; beyond, it prints as the shortest decimal that reads back as the same double,
  the integer \<open>dec r\<close> (the runtime's, a parameter here), and from \<open>10^21\<close> on in
  exponent notation, which PostgreSQL rejects as it rejects NaN, Infinity and a value
  out of the column's range. \<open>None\<close> is the error the statement raises.
\<close>

definition pg_integer :: "(real \<Rightarrow> int) \<Rightarrow> nat \<Rightarrow> jsnum \<Rightarrow> int option" where
  "pg_integer dec bits n =
     (case n of
        Finite r \<Rightarrow>
          (let i = (if \<bar>r\<bar> \<le> 2 ^ 53 then \<lfloor>r\<rfloor> else dec r)
           in if \<bar>r\<bar> < 10 ^ 21 \<and> - (2 ^ (bits - 1)) \<le> i \<and> i < 2 ^ (bits - 1)
              then Some i else None)
      | _ \<Rightarrow> None)"

section \<open>Server state, requests and responses\<close>

text \<open>
  \<open>pool\<close> is \<open>None\<close> when no database is configured, and holds the table otherwise.
  The two Maps keep their insertion order; \<open>submitTimes\<close> is keyed by the origin, which
  is \<open>None\<close> when both the header and the peer address are undefined.
\<close>

record state =
  pool :: "table option"
  submitTimes :: "(string option \<times> int) list"
  onlinePlayers :: "(string \<times> int) list"

text \<open>
  A POST /api/leaderboard request: the header and peer address, the six fields read
  from the parsed JSON body, the value of \<open>Date.now()\<close>, the database's \<open>NOW()\<close>,
  and whether the database answers (\<open>pool.query\<close> throws when it does not).
\<close>

record request =
  x_forwarded_for :: "string option"
  remoteAddress :: "string option"
  req_username :: jsval
  req_best_score :: jsval
  req_total_earned :: jsval
  req_prestiges :: jsval
  req_clicks :: jsval
  req_play_time :: jsval
  date_now :: int
  db_now :: int
  db_up :: bool

datatype reply =
    Error string
  | Ok
  | Online nat
  | Rows "entry list"
  | Player "(entry \<times> nat) option"

record response =
  status :: nat
  body :: reply

section \<open>POST /api/leaderboard\<close>

text \<open>\<open>req.headers['x-forwarded-for'] || req.socket.remoteAddress\<close>\<close>

definition ip_of :: "request \<Rightarrow> string option" where
  "ip_of rq =
     (case x_forwarded_for rq of
        Some h \<Rightarrow> if h \<noteq> [] then Some h else remoteAddress rq
      | None \<Rightarrow> remoteAddress rq)"

text \<open>\<open>submitTimes.get(ip) || 0\<close>\<close>

definition last_submit :: "(string option \<times> int) list \<Rightarrow> string option \<Rightarrow> int" where
  "last_submit m ip = (case map_of m ip of Some t \<Rightarrow> if t \<noteq> 0 then t else 0 | None \<Rightarrow> 0)"

text \<open>\<open>Math.floor(field || 0)\<close>\<close>

definition floor_or_0 :: "jsval \<Rightarrow> jsnum" where
  "floor_or_0 v = Math_floor (js_or v (Number (Finite 0)))"

text \<open>
  The row the INSERT proposes from the parameters \<open>$1 .. $6\<close> and \<open>NOW()\<close>;
  \<open>username\<close> is VARCHAR(20).
\<close>

definition excluded :: "(real \<Rightarrow> int) \<Rightarrow> request \<Rightarrow> string \<Rightarrow> row option" where
  "excluded dec rq clean =
     Option.bind (pg_integer dec 64 (floor_or_0 (req_best_score rq))) (\<lambda>b.
     Option.bind (pg_integer dec 64 (floor_or_0 (req_total_earned rq))) (\<lambda>t.
     Option.bind (pg_integer dec 32 (floor_or_0 (req_prestiges rq))) (\<lambda>p.
     Option.bind (pg_integer dec 64 (floor_or_0 (req_clicks rq))) (\<lambda>c.
     Option.bind (pg_integer dec 32 (floor_or_0 (req_play_time rq))) (\<lambda>pt.
       if length clean \<le> 20
       then Some \<lparr>username = clean, best_score = b, total_earned = t, prestiges = p,
                  clicks = c, play_time = pt, updated_at = db_now rq\<rparr>
       else None)))))"

definition query_upsert :: "(real \<Rightarrow> int) \<Rightarrow> request \<Rightarrow> string \<Rightarrow> table \<Rightarrow> table option" where
  "query_upsert dec rq clean tbl =
     (if db_up rq then map_option (\<lambda>e. upsert e tbl) (excluded dec rq clean) else None)"

text \<open>The body field behind each numeric column, in the order of the parameters.\<close>

definition body_fields :: "((request \<Rightarrow> jsval) \<times> (row \<Rightarrow> int)) list" where
  "body_fields =
     [(req_best_score, best_score), (req_total_earned, total_earned),
      (req_prestiges, prestiges), (req_clicks, clicks), (req_play_time, play_time)]"

definition reject :: "nat \<Rightarrow> string \<Rightarrow> response" where
  "reject code msg = \<lparr>status = code, body = Error msg\<rparr>"

text \<open>
  The rate limit of the handler: \<open>False\<close> with the Map untouched when
  \<open>now - last < 10000\<close>, else \<open>True\<close> with \<open>submitTimes.set(ip, now)\<close> done.
\<close>

definition rate_limit ::
  "(string option \<times> int) list \<Rightarrow> string option \<Rightarrow> int \<Rightarrow> bool \<times> (string option \<times> int) list" where
  "rate_limit m ip now =
     (let last = last_submit m ip
      in if now - last < 10000 then (False, m) else (True, AList.update ip now m))"

text \<open>
  The validation of the username: the message of the 400 response, or the clean name.
  \<open>!username || typeof username !== 'string'\<close> lets through the non-empty strings only.
\<close>

definition validate_username :: "jsval \<Rightarrow> string + string" where
  "validate_username u =
     (case u of
        String s n \<Rightarrow>
          if s = [] then Inl ''Username required''
          else
            let clean = toLowerCase (trim s)
            in if length clean < 1 \<or> length clean > 20 \<or> \<not> regex_test clean
               then Inl ''Username: 1-20 chars, alphanumeric + underscore''
               else Inr clean
      | _ \<Rightarrow> Inl ''Username required'')"

text \<open>
  The handler, check by check as in server.js (the dash of the 429 message is written
  \<open>-\<close>).
\<close>

definition post_leaderboard :: "(real \<Rightarrow> int) \<Rightarrow> state \<Rightarrow> request \<Rightarrow> response \<times> state" where
  "post_leaderboard dec st rq =
     (case pool st of
        None \<Rightarrow> (reject 503 ''No database configured'', st)
      | Some tbl \<Rightarrow>
          (case rate_limit (submitTimes st) (ip_of rq) (date_now rq) of
             (False, m) \<Rightarrow> (reject 429 ''Too fast - wait 10s'', st)
           | (True, m) \<Rightarrow>
               let st1 = st\<lparr>submitTimes := m\<rparr>
               in case validate_username (req_username rq) of
                    Inl msg \<Rightarrow> (reject 400 msg, st1)
                  | Inr clean \<Rightarrow>
                      (case query_upsert dec rq clean tbl of
                         None \<Rightarrow> (reject 500 ''Failed to submit score'', st1)
                       | Some tbl' \<Rightarrow>
                           (\<lparr>status = 200, body = Ok\<rparr>, st1\<lparr>pool := Some tbl'\<rparr>))))"




section \<open>Presence\<close>

text \<open>The counting loop of POST /api/ping and GET /api/online, at time \<open>now\<close>.\<close>

definition countOnline :: "(string \<times> int) list \<Rightarrow> int \<Rightarrow> nat" where
  "countOnline players now =
     (let cutoff = now - 60000
      in length (filter (\<lambda>(u, t). t > cutoff) players))"

text \<open>
  POST /api/ping reads the clock twice: \<open>t_set\<close> for the entry it writes, \<open>t_count\<close>
  for the cutoff.
\<close>

definition post_ping :: "state \<Rightarrow> jsval \<Rightarrow> int \<Rightarrow> int \<Rightarrow> response \<times> state" where
  "post_ping st u t_set t_count =
     (let st1 = (case u of
                   String s n \<Rightarrow>
                     if s \<noteq> []
                     then st\<lparr>onlinePlayers :=
                               AList.update (toLowerCase (trim s)) t_set (onlinePlayers st)\<rparr>
                     else st
                 | _ \<Rightarrow> st)
      in (\<lparr>status = 200, body = Online (countOnline (onlinePlayers st1) t_count)\<rparr>, st1))"

definition get_online :: "state \<Rightarrow> int \<Rightarrow> response" where
  "get_online st now = \<lparr>status = 200, body = Online (countOnline (onlinePlayers st) now)\<rparr>"

section \<open>Leaderboard reads\<close>

text \<open>
  GET /api/leaderboard. \<open>q\<close> is \<open>req.query.limit\<close> as the string parseInt converts it
  to, \<open>None\<close> when the parameter is absent (parseInt then reads \<open>undefined\<close>).
  ORDER BY best_score DESC is a stable sort of the storage order here: one of the
  orders PostgreSQL may return, which leaves the order of rows with equal scores open.
  Nothing proved below about the rows in general depends on the order of such rows.
\<close>

definition effective_limit :: "string option \<Rightarrow> int" where
  "effective_limit q =
     (let p = parseInt (case q of Some s \<Rightarrow> s | None \<Rightarrow> ''undefined'');
          n = (case p of Some i \<Rightarrow> if i \<noteq> 0 then i else 50 | None \<Rightarrow> 50)
      in min (max n 1) 100)"

definition select_top :: "int \<Rightarrow> table \<Rightarrow> entry list" where
  "select_top limit tbl = map cols (take (nat limit) (sort_key (\<lambda>r. - best_score r) tbl))"

definition get_leaderboard :: "state \<Rightarrow> string option \<Rightarrow> bool \<Rightarrow> response" where
  "get_leaderboard st q up =
     (case pool st of
        None \<Rightarrow> \<lparr>status = 200, body = Rows []\<rparr>
      | Some tbl \<Rightarrow>
          let limit = effective_limit q
          in if up then \<lparr>status = 200, body = Rows (select_top limit tbl)\<rparr>
             else reject 500 ''Failed to fetch leaderboard'')"

text \<open>
  GET /api/leaderboard/:username. The subquery counts the rows with a greater
  \<open>best_score\<close>, plus one; \<open>rows[0] || null\<close> is the first row selected.
\<close>

definition rank_of :: "table \<Rightarrow> row \<Rightarrow> nat" where
  "rank_of tbl l = length (filter (\<lambda>r. best_score r > best_score l) tbl) + 1"

definition select_player :: "string \<Rightarrow> table \<Rightarrow> (entry \<times> nat) list" where
  "select_player u tbl = map (\<lambda>l. (cols l, rank_of tbl l)) (filter (\<lambda>l. username l = u) tbl)"

definition get_player :: "state \<Rightarrow> string \<Rightarrow> bool \<Rightarrow> response" where
  "get_player st name up =
     (case pool st of
        None \<Rightarrow> \<lparr>status = 200, body = Player None\<rparr>
      | Some tbl \<Rightarrow>
          let u = toLowerCase name
          in if up
             then \<lparr>status = 200,
                   body = Player (case select_player u tbl of [] \<Rightarrow> None | x # _ \<Rightarrow> Some x)\<rparr>
             else reject 500 ''Failed to fetch player'')"

section \<open>Concrete inputs\<close>

text \<open>States and requests on which the theorems below are exercised.\<close>

definition sample_request :: request where
  "sample_request =
     \<lparr>x_forwarded_for = Some ''10.0.0.1'', remoteAddress = Some ''127.0.0.1'',
      req_username = String ''Alice_01'' NaN,
      req_best_score = Number (Finite 100), req_total_earned = Number (Finite (5 / 2)),
      req_prestiges = Undefined, req_clicks = Number (Finite 7), req_play_time = Null,
      date_now = 1700000000000, db_now = 1700000000000, db_up = True\<rparr>"

definition empty_state :: state where
  "empty_state = \<lparr>pool = Some [], submitTimes = [], onlinePlayers = []\<rparr>"

definition no_db_state :: state where
  "no_db_state = \<lparr>pool = None, submitTimes = [], onlinePlayers = []\<rparr>"

definition busy_state :: state where
  "busy_state =
     \<lparr>pool = Some [], submitTimes = [(Some ''10.0.0.1'', 1699999995000)], onlinePlayers = []\<rparr>"

definition bad_name_request :: request where
  "bad_name_request = sample_request\<lparr>req_username := String ''ab!'' NaN\<rparr>"

definition failing_request :: request where
  "failing_request = sample_request\<lparr>req_play_time := String ''abc'' NaN\<rparr>"

definition later_request :: "int \<Rightarrow> request" where
  "later_request ms =
     sample_request\<lparr>date_now := date_now sample_request + ms,
                    db_now := db_now sample_request + ms\<rparr>"

definition bob_state :: state where
  "bob_state = \<lparr>pool = None, submitTimes = [], onlinePlayers = [(''bob'', 1000)]\<rparr>"

definition player :: "string \<Rightarrow> int \<Rightarrow> row" where
  "player u b =
     \<lparr>username = u, best_score = b, total_earned = b, prestiges = 0, clicks = 0, play_time = 0,
      updated_at = 0\<rparr>"

definition four_players :: table where
  "four_players = [player ''dan'' 50, player ''bea'' 80, player ''ann'' 100, player ''cy'' 80]"

definition four_state :: state where
  "four_state = \<lparr>pool = Some four_players, submitTimes = [], onlinePlayers = []\<rparr>"

definition ranked_players :: table where
  "ranked_players = [player ''ann'' 100, player ''bea'' 80, player ''cy'' 80, player ''dan'' 50]"

definition ranked_state :: state where
  "ranked_state = \<lparr>pool = Some ranked_players, submitTimes = [], onlinePlayers = []\<rparr>"

definition negative_request :: request where
  "negative_request = sample_request\<lparr>req_best_score := Number (Finite (- 5))\<rparr>"



definition alice_row :: row where
  "alice_row =
     \<lparr>username = ''alice_01'', best_score = 150, total_earned = 1, prestiges = 4,
      clicks = 3, play_time = 9, updated_at = 5\<rparr>"

definition alice_state :: state where
  "alice_state = \<lparr>pool = Some [alice_row], submitTimes = [], onlinePlayers = []\<rparr>"

section \<open>Properties of the submission handler\<close>

lemma rate_limit_reject_iff:
  "\<not> fst (rate_limit m ip now) \<longleftrightarrow> now - last_submit m ip < 10000"
  by (simp add: rate_limit_def Let_def)

lemma rate_limit_snd:
  "snd (rate_limit m ip now) = (if now - last_submit m ip < 10000 then m else AList.update ip now m)"
  by (simp add: rate_limit_def Let_def)

lemma last_submit_update: "last_submit (AList.update ip now m) ip = now"
  by (simp add: last_submit_def update_conv')

lemma post_no_pool:
  "pool st = None \<Longrightarrow> post_leaderboard dec st rq = (reject 503 ''No database configured'', st)"
  by (simp add: post_leaderboard_def)

lemma post_too_fast:
  "pool st = Some tbl \<Longrightarrow> date_now rq - last_submit (submitTimes st) (ip_of rq) < 10000 \<Longrightarrow>
   post_leaderboard dec st rq = (reject 429 ''Too fast - wait 10s'', st)"
  by (simp add: post_leaderboard_def rate_limit_def Let_def)

lemma post_bad_username:
  "pool st = Some tbl \<Longrightarrow> \<not> date_now rq - last_submit (submitTimes st) (ip_of rq) < 10000 \<Longrightarrow>
   validate_username (req_username rq) = Inl msg \<Longrightarrow>
   post_leaderboard dec st rq =
     (reject 400 msg, st\<lparr>submitTimes := AList.update (ip_of rq) (date_now rq) (submitTimes st)\<rparr>)"
  by (simp add: post_leaderboard_def rate_limit_def Let_def)

lemma post_query:
  "pool st = Some tbl \<Longrightarrow> \<not> date_now rq - last_submit (submitTimes st) (ip_of rq) < 10000 \<Longrightarrow>
   validate_username (req_username rq) = Inr clean \<Longrightarrow>
   post_leaderboard dec st rq =
     (case query_upsert dec rq clean tbl of
        None \<Rightarrow> (reject 500 ''Failed to submit score'',
                  st\<lparr>submitTimes := AList.update (ip_of rq) (date_now rq) (submitTimes st)\<rparr>)
      | Some tbl' \<Rightarrow> (\<lparr>status = 200, body = Ok\<rparr>,
                  st\<lparr>submitTimes := AList.update (ip_of rq) (date_now rq) (submitTimes st),
                     pool := Some tbl'\<rparr>))"
  by (simp add: post_leaderboard_def rate_limit_def Let_def)

lemma status_reject: "status (reject c m) = c"
  by (simp add: reject_def)

lemma post_accepted:
  assumes "post_leaderboard dec st rq = (rs, st')" and "status rs = 200"
  shows "\<exists>tbl clean e. pool st = Some tbl \<and> validate_username (req_username rq) = Inr clean
           \<and> \<not> date_now rq - last_submit (submitTimes st) (ip_of rq) < 10000
           \<and> db_up rq \<and> excluded dec rq clean = Some e \<and> username e = clean
           \<and> st' = st\<lparr>submitTimes := AList.update (ip_of rq) (date_now rq) (submitTimes st),
                       pool := Some (upsert e tbl)\<rparr>"
proof (cases "pool st")
  case None
  with assms show ?thesis by (auto simp: post_no_pool status_reject)
next
  case (Some tbl)
  show ?thesis
  proof (cases "date_now rq - last_submit (submitTimes st) (ip_of rq) < 10000")
    case True
    with Some assms show ?thesis by (auto simp: post_too_fast status_reject)
  next
    case False
    show ?thesis
    proof (cases "validate_username (req_username rq)")
      case (Inl msg)
      with Some False assms show ?thesis by (auto simp: post_bad_username status_reject)
    next
      case (Inr clean)
      from post_query [OF Some False Inr, of dec] assms
      obtain tbl' where q: "query_upsert dec rq clean tbl = Some tbl'"
        and st': "st' = st\<lparr>submitTimes := AList.update (ip_of rq) (date_now rq) (submitTimes st),
                     pool := Some tbl'\<rparr>"
        by (auto simp: status_reject split: option.splits)
      from q obtain e where up: "db_up rq" and e: "excluded dec rq clean = Some e"
        and tbl': "tbl' = upsert e tbl"
        by (auto simp: query_upsert_def split: if_splits)
      from e have "username e = clean"
        by (auto simp: excluded_def split: Option.bind_splits if_splits)
      with Some False Inr up e tbl' st' show ?thesis by simp
    qed
  qed
qed

lemma post_429_iff:
  assumes "pool st = Some tbl"
  shows "status (fst (post_leaderboard dec st rq)) = 429
           \<longleftrightarrow> date_now rq - last_submit (submitTimes st) (ip_of rq) < 10000"
proof (cases "date_now rq - last_submit (submitTimes st) (ip_of rq) < 10000")
  case True
  with assms show ?thesis by (simp add: post_too_fast status_reject)
next
  case False
  show ?thesis
  proof (cases "validate_username (req_username rq)")
    case (Inl msg)
    with assms False show ?thesis by (simp add: post_bad_username status_reject)
  next
    case (Inr clean)
    with assms False show ?thesis
      by (simp add: post_query status_reject split: option.splits)
  qed
qed

lemma post_passed_limit:
  assumes "pool st = Some tbl"
    and "\<not> date_now rq - last_submit (submitTimes st) (ip_of rq) < 10000"
  shows "submitTimes (snd (post_leaderboard dec st rq))
           = AList.update (ip_of rq) (date_now rq) (submitTimes st)
         \<and> pool (snd (post_leaderboard dec st rq)) \<noteq> None"
proof (cases "validate_username (req_username rq)")
  case (Inl msg)
  with assms show ?thesis by (simp add: post_bad_username)
next
  case (Inr clean)
  with assms show ?thesis by (simp add: post_query split: option.splits)
qed

lemma resubmission_status:
  assumes "pool st = Some tbl"
    and "\<not> date_now rq - last_submit (submitTimes st) (ip_of rq) < 10000"
    and "ip_of rq2 = ip_of rq"
  shows "status (fst (post_leaderboard dec (snd (post_leaderboard dec st rq)) rq2)) = 429
           \<longleftrightarrow> date_now rq2 - date_now rq < 10000"
proof -
  let ?st1 = "snd (post_leaderboard dec st rq)"
  from post_passed_limit [OF assms(1,2), of dec]
  obtain tbl1 where p: "pool ?st1 = Some tbl1"
    and m: "submitTimes ?st1 = AList.update (ip_of rq) (date_now rq) (submitTimes st)"
    by auto
  show ?thesis
    by (simp add: post_429_iff [OF p] m assms(3) last_submit_update)
qed

text \<open>
  C3. The checks of POST /api/leaderboard run in a fixed order: without a pool the
  response is 503 and the state is untouched, whatever the rate-limit Map holds; else
  within the cooldown it is 429, whatever the username is; else a malformed username
  gives 400; else the statement runs, with 500 when it fails and 200 when it succeeds.
\<close>

theorem post_leaderboard_check_order:
  "(pool st = None \<longrightarrow>
      status (fst (post_leaderboard dec st rq)) = 503 \<and> snd (post_leaderboard dec st rq) = st)
   \<and> (pool st = Some tbl \<and> date_now rq - last_submit (submitTimes st) (ip_of rq) < 10000 \<longrightarrow>
      status (fst (post_leaderboard dec st rq)) = 429 \<and> snd (post_leaderboard dec st rq) = st)
   \<and> (pool st = Some tbl \<and> \<not> date_now rq - last_submit (submitTimes st) (ip_of rq) < 10000
        \<and> validate_username (req_username rq) = Inl msg \<longrightarrow>
      status (fst (post_leaderboard dec st rq)) = 400)
   \<and> (pool st = Some tbl \<and> \<not> date_now rq - last_submit (submitTimes st) (ip_of rq) < 10000
        \<and> validate_username (req_username rq) = Inr clean \<longrightarrow>
      (query_upsert dec rq clean tbl = None \<longrightarrow>
         status (fst (post_leaderboard dec st rq)) = 500)
      \<and> (\<forall>tbl'. query_upsert dec rq clean tbl = Some tbl' \<longrightarrow>
         status (fst (post_leaderboard dec st rq)) = 200
         \<and> pool (snd (post_leaderboard dec st rq)) = Some tbl'))"
proof (intro conjI impI allI)
  assume "pool st = None"
  then show "status (fst (post_leaderboard dec st rq)) = 503"
    and "snd (post_leaderboard dec st rq) = st"
    by (simp_all add: post_no_pool status_reject)
next
  assume "pool st = Some tbl \<and> date_now rq - last_submit (submitTimes st) (ip_of rq) < 10000"
  then show "status (fst (post_leaderboard dec st rq)) = 429"
    and "snd (post_leaderboard dec st rq) = st"
    by (simp_all add: post_too_fast status_reject)
next
  assume "pool st = Some tbl \<and> \<not> date_now rq - last_submit (submitTimes st) (ip_of rq) < 10000
    \<and> validate_username (req_username rq) = Inl msg"
  then show "status (fst (post_leaderboard dec st rq)) = 400"
    by (simp add: post_bad_username status_reject)
next
  assume a: "pool st = Some tbl \<and> \<not> date_now rq - last_submit (submitTimes st) (ip_of rq) < 10000
    \<and> validate_username (req_username rq) = Inr clean"
  {
    assume "query_upsert dec rq clean tbl = None"
    with a show "status (fst (post_leaderboard dec st rq)) = 500"
      by (simp add: post_query status_reject)
  }
  {
    fix tbl' assume "query_upsert dec rq clean tbl = Some tbl'"
    with a show "status (fst (post_leaderboard dec st rq)) = 200"
      and "pool (snd (post_leaderboard dec st rq)) = Some tbl'"
      by (simp_all add: post_query)
  }
qed


theorem post_leaderboard_check_order_witness:
  "pool no_db_state = None
   \<and> status (fst (post_leaderboard floor no_db_state sample_request)) = 503
   \<and> snd (post_leaderboard floor no_db_state sample_request) = no_db_state
   \<and> date_now sample_request - last_submit (submitTimes busy_state) (ip_of sample_request) < 10000
   \<and> status (fst (post_leaderboard floor busy_state sample_request)) = 429
   \<and> snd (post_leaderboard floor busy_state sample_request) = busy_state
   \<and> \<not> date_now bad_name_request - last_submit (submitTimes empty_state) (ip_of bad_name_request) < 10000
   \<and> validate_username (req_username bad_name_request)
         = Inl ''Username: 1-20 chars, alphanumeric + underscore''
   \<and> status (fst (post_leaderboard floor empty_state bad_name_request)) = 400
   \<and> query_upsert floor failing_request ''alice_01'' [] = None
   \<and> status (fst (post_leaderboard floor empty_state failing_request)) = 500
   \<and> status (fst (post_leaderboard floor empty_state sample_request)) = 200"
proof -
  have h1: "pool no_db_state = None"
    by (simp add: no_db_state_def)
  have c1: "status (fst (post_leaderboard floor no_db_state sample_request)) = 503
      \<and> snd (post_leaderboard floor no_db_state sample_request) = no_db_state"
    using post_leaderboard_check_order [where st = no_db_state and dec = floor and rq = sample_request
        and tbl = "[]" and msg = "[]" and clean = "[]"] h1
    by blast
  have p2: "pool busy_state = Some []"
    by (simp add: busy_state_def)
  have h2: "date_now sample_request - last_submit (submitTimes busy_state) (ip_of sample_request) < 10000"
    by code_simp
  have c2: "status (fst (post_leaderboard floor busy_state sample_request)) = 429
      \<and> snd (post_leaderboard floor busy_state sample_request) = busy_state"
    using post_leaderboard_check_order [where st = busy_state and dec = floor and rq = sample_request
        and tbl = "[]" and msg = "[]" and clean = "[]"] p2 h2
    by blast
  have p3: "pool empty_state = Some []"
    by (simp add: empty_state_def)
  have h3: "\<not> date_now bad_name_request - last_submit (submitTimes empty_state) (ip_of bad_name_request) < 10000"
    by code_simp
  have v3: "validate_username (req_username bad_name_request)
      = Inl ''Username: 1-20 chars, alphanumeric + underscore''"
    by code_simp
  have c3: "status (fst (post_leaderboard floor empty_state bad_name_request)) = 400"
    using post_leaderboard_check_order [where st = empty_state and dec = floor and rq = bad_name_request
        and tbl = "[]" and msg = "''Username: 1-20 chars, alphanumeric + underscore''"
        and clean = "[]"] p3 h3 v3
    by blast
  have h4: "\<not> date_now failing_request - last_submit (submitTimes empty_state) (ip_of failing_request) < 10000"
    by code_simp
  have v4: "validate_username (req_username failing_request) = Inr ''alice_01''"
    by code_simp
  have q4: "query_upsert floor failing_request ''alice_01'' [] = None"
    by code_simp
  have c4: "status (fst (post_leaderboard floor empty_state failing_request)) = 500"
    using post_leaderboard_check_order [where st = empty_state and dec = floor and rq = failing_request
        and tbl = "[]" and msg = "[]" and clean = "''alice_01''"] p3 h4 v4 q4
    by blast
  have h5: "\<not> date_now sample_request - last_submit (submitTimes empty_state) (ip_of sample_request) < 10000"
    by code_simp
  have v5: "validate_username (req_username sample_request) = Inr ''alice_01''"
    by code_simp
  have q5: "query_upsert floor sample_request ''alice_01'' []
      = Some [\<lparr>username = ''alice_01'', best_score = 100, total_earned = 2, prestiges = 0,
                clicks = 7, play_time = 0, updated_at = 1700000000000\<rparr>]"
    by code_simp
  have c5: "status (fst (post_leaderboard floor empty_state sample_request)) = 200"
    using post_leaderboard_check_order [where st = empty_state and dec = floor and rq = sample_request
        and tbl = "[]" and msg = "[]" and clean = "''alice_01''"] p3 h5 v5 q5
    by blast
  from h1 c1 h2 c2 h3 v3 c3 q4 c4 c5 show ?thesis
    by blast
qed

text \<open>
  C4. \<open>Date.now()\<close> is the number of milliseconds since 1970, at least 10000 on any
  clock the server reads. For every origin and every such time \<open>now\<close>, the limiter
  rejects exactly when the origin has an entry and \<open>now\<close> minus its timestamp is less
  than 10000 ms; a rejection leaves the Map as it is and is answered 429, an acceptance
  records \<open>now\<close> for the origin. After a submission that passed the limiter, the next
  one from the same origin is answered 429 exactly when it comes less than 10000 ms
  later.
\<close>

theorem rate_limit_cooldown:
  assumes "10000 \<le> now"
  shows "(\<not> fst (rate_limit m ip now) \<longleftrightarrow> (\<exists>t. map_of m ip = Some t \<and> now - t < 10000))
     \<and> (\<not> fst (rate_limit m ip now) \<longrightarrow> snd (rate_limit m ip now) = m)
     \<and> (fst (rate_limit m ip now) \<longrightarrow>
          map_of (snd (rate_limit m ip now)) = (map_of m)(ip \<mapsto> now))
     \<and> (pool st = Some tbl \<and> submitTimes st = m \<and> ip_of rq = ip \<and> date_now rq = now \<longrightarrow>
          (status (fst (post_leaderboard dec st rq)) = 429
             \<longleftrightarrow> (\<exists>t. map_of m ip = Some t \<and> now - t < 10000))
          \<and> (status (fst (post_leaderboard dec st rq)) = 429 \<longrightarrow>
                snd (post_leaderboard dec st rq) = st)
          \<and> (status (fst (post_leaderboard dec st rq)) \<noteq> 429 \<and> ip_of rq' = ip \<longrightarrow>
                (status (fst (post_leaderboard dec (snd (post_leaderboard dec st rq)) rq')) = 429
                   \<longleftrightarrow> date_now rq' - now < 10000)))"
proof -
  have last: "last_submit m ip = (case map_of m ip of Some t \<Rightarrow> t | None \<Rightarrow> 0)"
    by (simp add: last_submit_def split: option.splits)
  have a: "\<not> fst (rate_limit m ip now) \<longleftrightarrow> (\<exists>t. map_of m ip = Some t \<and> now - t < 10000)"
    using assms by (cases "map_of m ip") (simp_all add: rate_limit_reject_iff last)
  have b: "\<not> fst (rate_limit m ip now) \<longrightarrow> snd (rate_limit m ip now) = m"
    by (simp add: rate_limit_reject_iff rate_limit_snd)
  have c: "fst (rate_limit m ip now) \<longrightarrow>
      map_of (snd (rate_limit m ip now)) = (map_of m)(ip \<mapsto> now)"
    by (simp add: rate_limit_def Let_def update_conv')
  have d: "pool st = Some tbl \<and> submitTimes st = m \<and> ip_of rq = ip \<and> date_now rq = now \<longrightarrow>
          (status (fst (post_leaderboard dec st rq)) = 429
             \<longleftrightarrow> (\<exists>t. map_of m ip = Some t \<and> now - t < 10000))
          \<and> (status (fst (post_leaderboard dec st rq)) = 429 \<longrightarrow>
                snd (post_leaderboard dec st rq) = st)
          \<and> (status (fst (post_leaderboard dec st rq)) \<noteq> 429 \<and> ip_of rq' = ip \<longrightarrow>
                (status (fst (post_leaderboard dec (snd (post_leaderboard dec st rq)) rq')) = 429
                   \<longleftrightarrow> date_now rq' - now < 10000))"
  proof
    assume h: "pool st = Some tbl \<and> submitTimes st = m \<and> ip_of rq = ip \<and> date_now rq = now"
    then have p: "pool st = Some tbl"
      by simp
    from h have iff: "status (fst (post_leaderboard dec st rq)) = 429
        \<longleftrightarrow> now - last_submit m ip < 10000"
      using post_429_iff [OF p, of dec rq] by simp
    with a have d1: "status (fst (post_leaderboard dec st rq)) = 429
        \<longleftrightarrow> (\<exists>t. map_of m ip = Some t \<and> now - t < 10000)"
      by (simp add: rate_limit_reject_iff)
    have d2: "status (fst (post_leaderboard dec st rq)) = 429 \<longrightarrow>
        snd (post_leaderboard dec st rq) = st"
      using iff h post_too_fast [OF p, of rq dec] by simp
    have d3: "status (fst (post_leaderboard dec st rq)) \<noteq> 429 \<and> ip_of rq' = ip \<longrightarrow>
        (status (fst (post_leaderboard dec (snd (post_leaderboard dec st rq)) rq')) = 429
           \<longleftrightarrow> date_now rq' - now < 10000)"
      using iff h resubmission_status [OF p, of rq rq' dec] by simp
    from d1 d2 d3
    show "(status (fst (post_leaderboard dec st rq)) = 429
             \<longleftrightarrow> (\<exists>t. map_of m ip = Some t \<and> now - t < 10000))
          \<and> (status (fst (post_leaderboard dec st rq)) = 429 \<longrightarrow>
                snd (post_leaderboard dec st rq) = st)
          \<and> (status (fst (post_leaderboard dec st rq)) \<noteq> 429 \<and> ip_of rq' = ip \<longrightarrow>
                (status (fst (post_leaderboard dec (snd (post_leaderboard dec st rq)) rq')) = 429
                   \<longleftrightarrow> date_now rq' - now < 10000))"
      by (intro conjI)
  qed
  from a b c d show ?thesis
    by (intro conjI)
qed

theorem rate_limit_cooldown_witness:
  "10000 \<le> date_now sample_request
   \<and> map_of (submitTimes empty_state) (ip_of sample_request) = None
   \<and> fst (rate_limit (submitTimes empty_state) (ip_of sample_request) (date_now sample_request))
   \<and> map_of (snd (rate_limit (submitTimes empty_state) (ip_of sample_request)
              (date_now sample_request))) (ip_of sample_request)
       = Some (date_now sample_request)
   \<and> map_of (submitTimes busy_state) (ip_of sample_request) = Some 1699999995000
   \<and> \<not> fst (rate_limit (submitTimes busy_state) (ip_of sample_request) (date_now sample_request))
   \<and> snd (rate_limit (submitTimes busy_state) (ip_of sample_request) (date_now sample_request))
       = submitTimes busy_state
   \<and> status (fst (post_leaderboard floor busy_state sample_request)) = 429
   \<and> snd (post_leaderboard floor busy_state sample_request) = busy_state
   \<and> status (fst (post_leaderboard floor empty_state sample_request)) \<noteq> 429
   \<and> status (fst (post_leaderboard floor
         (snd (post_leaderboard floor empty_state sample_request)) (later_request 9999))) = 429
   \<and> status (fst (post_leaderboard floor
         (snd (post_leaderboard floor empty_state sample_request)) (later_request 10000))) \<noteq> 429"
proof -
  let ?now = "date_now sample_request"
  let ?ip = "ip_of sample_request"
  have h: "10000 \<le> ?now"
    by code_simp
  have n: "map_of (submitTimes empty_state) ?ip = None"
    by code_simp
  have e: "map_of (submitTimes busy_state) ?ip = Some 1699999995000"
    by code_simp
  have r: "?now - 1699999995000 < 10000"
    by code_simp
  have pe: "pool empty_state = Some []" and pb: "pool busy_state = Some []"
    by (simp_all add: empty_state_def busy_state_def)
  have ip1: "ip_of (later_request 9999) = ?ip"
    and ip2: "ip_of (later_request 10000) = ?ip"
    by code_simp+
  have d1: "date_now (later_request 9999) - ?now < 10000"
    and d2: "\<not> date_now (later_request 10000) - ?now < 10000"
    by code_simp+
  note empty = rate_limit_cooldown [OF h, where m = "submitTimes empty_state" and ip = ?ip
      and st = empty_state and tbl = "[]" and rq = sample_request and dec = floor]
  note busy = rate_limit_cooldown [OF h, where m = "submitTimes busy_state" and ip = ?ip
      and st = busy_state and tbl = "[]" and rq = sample_request and dec = floor]
  from empty [where rq' = "later_request 9999"] n
  have f1: "fst (rate_limit (submitTimes empty_state) ?ip ?now)"
    by simp
  with empty [where rq' = "later_request 9999"]
  have c1: "map_of (snd (rate_limit (submitTimes empty_state) ?ip ?now)) ?ip = Some ?now"
    by simp
  from busy [where rq' = "later_request 9999"] e r
  have f2: "\<not> fst (rate_limit (submitTimes busy_state) ?ip ?now)"
    by simp
  with busy [where rq' = "later_request 9999"]
  have c2: "snd (rate_limit (submitTimes busy_state) ?ip ?now) = submitTimes busy_state"
    by blast
  from busy [where rq' = "later_request 9999"] pb e r
  have c3: "status (fst (post_leaderboard floor busy_state sample_request)) = 429"
    by simp
  with busy [where rq' = "later_request 9999"] pb
  have c4: "snd (post_leaderboard floor busy_state sample_request) = busy_state"
    by blast
  from empty [where rq' = "later_request 9999"] pe n
  have c5: "status (fst (post_leaderboard floor empty_state sample_request)) \<noteq> 429"
    by simp
  from empty [where rq' = "later_request 9999"] pe c5 ip1 d1
  have c6: "status (fst (post_leaderboard floor
         (snd (post_leaderboard floor empty_state sample_request)) (later_request 9999))) = 429"
    by blast
  from empty [where rq' = "later_request 10000"] pe c5 ip2 d2
  have c7: "status (fst (post_leaderboard floor
         (snd (post_leaderboard floor empty_state sample_request)) (later_request 10000))) \<noteq> 429"
    by blast
  from h n f1 c1 e f2 c2 c3 c4 c5 c6 c7 show ?thesis
    by (intro conjI)
qed

text \<open>
  C10. The origin's timestamp is written as soon as the rate check passes, before the
  username is looked at: a submission answered 400 leaves the Map changed, with the
  origin's entry at the time of the rejected submission, and any submission from the
  same origin less than 10000 ms later is answered 429.
\<close>

theorem rejected_username_starts_cooldown:
  assumes "pool st = Some tbl"
    and "\<not> date_now rq - last_submit (submitTimes st) (ip_of rq) < 10000"
    and "validate_username (req_username rq) = Inl msg"
  shows "status (fst (post_leaderboard dec st rq)) = 400
     \<and> map_of (submitTimes (snd (post_leaderboard dec st rq))) (ip_of rq) = Some (date_now rq)
     \<and> submitTimes (snd (post_leaderboard dec st rq)) \<noteq> submitTimes st
     \<and> (\<forall>rq2. ip_of rq2 = ip_of rq \<and> date_now rq2 - date_now rq < 10000 \<longrightarrow>
          status (fst (post_leaderboard dec (snd (post_leaderboard dec st rq)) rq2)) = 429)"
proof -
  let ?m = "AList.update (ip_of rq) (date_now rq) (submitTimes st)"
  have post: "post_leaderboard dec st rq = (reject 400 msg, st\<lparr>submitTimes := ?m\<rparr>)"
    using assms by (rule post_bad_username)
  have s: "status (fst (post_leaderboard dec st rq)) = 400"
    by (simp add: post status_reject)
  have m: "map_of (submitTimes (snd (post_leaderboard dec st rq))) (ip_of rq) = Some (date_now rq)"
    by (simp add: post update_conv')
  have "last_submit (submitTimes st) (ip_of rq) \<noteq> date_now rq"
    using assms(2) by auto
  then have "map_of (submitTimes st) (ip_of rq) \<noteq> Some (date_now rq)"
    by (auto simp: last_submit_def split: if_splits)
  with m have n: "submitTimes (snd (post_leaderboard dec st rq)) \<noteq> submitTimes st"
    by auto
  have r: "\<forall>rq2. ip_of rq2 = ip_of rq \<and> date_now rq2 - date_now rq < 10000 \<longrightarrow>
          status (fst (post_leaderboard dec (snd (post_leaderboard dec st rq)) rq2)) = 429"
    using resubmission_status [OF assms(1,2), of _ dec] by blast
  from s m n r show ?thesis
    by blast
qed

theorem rejected_username_starts_cooldown_witness:
  "pool empty_state = Some []
   \<and> \<not> date_now bad_name_request
         - last_submit (submitTimes empty_state) (ip_of bad_name_request) < 10000
   \<and> validate_username (req_username bad_name_request)
       = Inl ''Username: 1-20 chars, alphanumeric + underscore''
   \<and> status (fst (post_leaderboard floor empty_state bad_name_request)) = 400
   \<and> submitTimes (snd (post_leaderboard floor empty_state bad_name_request))
       \<noteq> submitTimes empty_state
   \<and> validate_username (req_username (later_request 9999)) = Inr ''alice_01''
   \<and> status (fst (post_leaderboard floor
         (snd (post_leaderboard floor empty_state bad_name_request)) (later_request 9999))) = 429"
proof -
  have p: "pool empty_state = Some []"
    by (simp add: empty_state_def)
  have h: "\<not> date_now bad_name_request
         - last_submit (submitTimes empty_state) (ip_of bad_name_request) < 10000"
    by code_simp
  have v: "validate_username (req_username bad_name_request)
       = Inl ''Username: 1-20 chars, alphanumeric + underscore''"
    by code_simp
  have w: "validate_username (req_username (later_request 9999)) = Inr ''alice_01''"
    by code_simp
  have i: "ip_of (later_request 9999) = ip_of bad_name_request"
    by code_simp
  have d: "date_now (later_request 9999) - date_now bad_name_request < 10000"
    by code_simp
  from rejected_username_starts_cooldown [OF p h v, of floor] i d
  have "status (fst (post_leaderboard floor empty_state bad_name_request)) = 400
   \<and> submitTimes (snd (post_leaderboard floor empty_state bad_name_request))
       \<noteq> submitTimes empty_state
   \<and> status (fst (post_leaderboard floor
         (snd (post_leaderboard floor empty_state bad_name_request)) (later_request 9999))) = 429"
    by blast
  with p h v w show ?thesis
    by blast
qed

section \<open>Properties of the presence tracker\<close>

lemma countOnline_card:
  assumes "distinct (map fst players)"
  shows "countOnline players now = card {u. \<exists>t. map_of players u = Some t \<and> now - t < 60000}"
proof -
  let ?P = "\<lambda>(u :: string, t :: int). t > now - 60000"
  have d: "distinct (map fst (filter ?P players))"
    using assms by (rule distinct_map_filter)
  have "{u. \<exists>t. map_of players u = Some t \<and> now - t < 60000} = fst ` set (filter ?P players)"
    using assms by (force simp: image_iff)
  also have "card \<dots> = length (filter ?P players)"
    using d by (metis distinct_card length_map set_map)
  finally show ?thesis
    by (simp add: countOnline_def)
qed


text \<open>
  C5, as stated, fails: the loop counts an entry when its timestamp is greater than
  \<open>now - 60000\<close>, so an entry exactly 60000 ms old is not counted.
\<close>

theorem online_boundary_counterexample:
  "map_of (onlinePlayers bob_state) ''bob'' = Some 1000
   \<and> (61000 :: int) - 1000 \<le> 60000
   \<and> countOnline (onlinePlayers bob_state) 61000 = 0
   \<and> body (get_online bob_state 61000) = Online 0
   \<and> body (fst (post_ping bob_state Undefined 61000 61000)) = Online 0"
  by code_simp

text \<open>
  C5, amended. The count served by GET /api/online and returned by POST /api/ping (taken
  after the ping's own entry is written) is the number of presence entries whose
  timestamp \<open>t\<close> satisfies \<open>now - t < 60000\<close>: the boundary is excluded.
\<close>

theorem online_count_window:
  assumes "distinct (map fst (onlinePlayers st))"
  shows "body (get_online st now)
           = Online (card {v. \<exists>t. map_of (onlinePlayers st) v = Some t \<and> now - t < 60000})
     \<and> body (fst (post_ping st u t_set t_count))
           = Online (card {v. \<exists>t. map_of (onlinePlayers (snd (post_ping st u t_set t_count))) v = Some t
                                \<and> t_count - t < 60000})"
proof -
  have "distinct (map fst (onlinePlayers (snd (post_ping st u t_set t_count))))"
    using assms by (auto simp: post_ping_def distinct_update split: jsval.splits)
  then have "countOnline (onlinePlayers (snd (post_ping st u t_set t_count))) t_count
      = card {v. \<exists>t. map_of (onlinePlayers (snd (post_ping st u t_set t_count))) v = Some t
                                \<and> t_count - t < 60000}"
    by (rule countOnline_card)
  moreover have "body (fst (post_ping st u t_set t_count))
      = Online (countOnline (onlinePlayers (snd (post_ping st u t_set t_count))) t_count)"
    by (simp add: post_ping_def Let_def)
  moreover have "body (get_online st now) = Online (countOnline (onlinePlayers st) now)"
    by (simp add: get_online_def)
  ultimately show ?thesis
    using countOnline_card [OF assms, of now] by simp
qed

theorem online_count_window_witness:
  "distinct (map fst (onlinePlayers bob_state))
   \<and> body (get_online bob_state 60999) = Online 1
   \<and> card {v. \<exists>t. map_of (onlinePlayers bob_state) v = Some t \<and> 60999 - t < 60000} = 1
   \<and> body (get_online bob_state 61000) = Online 0
   \<and> card {v. \<exists>t. map_of (onlinePlayers bob_state) v = Some t \<and> 61000 - t < 60000} = 0
   \<and> body (fst (post_ping bob_state (String ''Ann'' NaN) 61000 61001)) = Online 1"
proof -
  have d: "distinct (map fst (onlinePlayers bob_state))"
    by code_simp
  have a: "body (get_online bob_state 60999) = Online 1"
    by code_simp
  have b: "body (get_online bob_state 61000) = Online 0"
    by code_simp
  have c: "body (fst (post_ping bob_state (String ''Ann'' NaN) 61000 61001)) = Online 1"
    by code_simp
  from online_count_window [OF d, of 60999] a
  have a': "card {v. \<exists>t. map_of (onlinePlayers bob_state) v = Some t \<and> 60999 - t < 60000} = 1"
    by simp
  from online_count_window [OF d, of 61000] b
  have b': "card {v. \<exists>t. map_of (onlinePlayers bob_state) v = Some t \<and> 61000 - t < 60000} = 0"
    by simp
  from d a a' b b' c show ?thesis
    by blast
qed

text \<open>
  C9. POST /api/ping guards on the username as it arrives (\<open>username && typeof username
  === 'string'\<close>) and trims it afterwards, where POST /api/leaderboard rejects a name
  that is empty after trimming. At a username of white space only the normalized
  identity is empty and the handler still writes an entry, under the empty identity,
  and counts it online; an absent username at the same state writes nothing.
\<close>

theorem whitespace_ping_recorded:
  "toLowerCase (trim ''   '') = []
   \<and> validate_username (String ''   '' (Finite 0)) = Inl ''Username: 1-20 chars, alphanumeric + underscore''
   \<and> onlinePlayers (snd (post_ping empty_state (String ''   '' (Finite 0)) 1000 1000)) = [([], 1000)]
   \<and> body (fst (post_ping empty_state (String ''   '' (Finite 0)) 1000 1000)) = Online 1
   \<and> onlinePlayers (snd (post_ping empty_state Undefined 1000 1000)) = []
   \<and> body (fst (post_ping empty_state Undefined 1000 1000)) = Online 0"
  by code_simp

section \<open>Properties of the leaderboard reads\<close>

lemma filter_key_distinct:
  "distinct (map f xs) \<Longrightarrow> x \<in> set xs \<Longrightarrow> filter (\<lambda>y. f y = f x) xs = [x]"
proof (induction xs)
  case Nil
  then show ?case by simp
next
  case (Cons a xs)
  show ?case
  proof (cases "a = x")
    case True
    with Cons.prems have "\<forall>y\<in>set xs. f y \<noteq> f x"
      by (auto simp: image_iff)
    then have "filter (\<lambda>y. f y = f x) xs = []"
      by (simp add: filter_empty_conv)
    with True show ?thesis by simp
  next
    case False
    with Cons.prems have "x \<in> set xs" and "f a \<noteq> f x"
      by (auto simp: image_iff)
    with Cons show ?thesis by simp
  qed
qed

lemma rank_of_card:
  assumes "distinct (map username tbl)"
  shows "rank_of tbl l = 1 + card {u. \<exists>r\<in>set tbl. username r = u \<and> best_score l < best_score r}"
proof -
  let ?P = "\<lambda>r. best_score r > best_score l"
  have "distinct (map username (filter ?P tbl))"
    using assms by (rule distinct_map_filter)
  then have "card (username ` set (filter ?P tbl)) = length (filter ?P tbl)"
    by (metis distinct_card length_map set_map)
  moreover have "{u. \<exists>r\<in>set tbl. username r = u \<and> best_score l < best_score r}
      = username ` set (filter ?P tbl)"
    by auto
  ultimately show ?thesis
    by (simp add: rank_of_def)
qed

text \<open>
  C6. For every stored identity, the rank GET /api/leaderboard/:username returns is one
  plus the number of distinct identities whose best score is greater than that
  identity's.
\<close>

theorem rank_is_one_plus_greater:
  assumes "pool st = Some tbl"
    and "distinct (map username tbl)"
    and "l \<in> set tbl"
    and "toLowerCase name = username l"
  shows "get_player st name True
     = \<lparr>status = 200,
        body = Player (Some (cols l,
                 1 + card {u. \<exists>r\<in>set tbl. username r = u \<and> best_score l < best_score r}))\<rparr>"
proof -
  have "filter (\<lambda>r. username r = username l) tbl = [l]"
    using assms(2,3) by (rule filter_key_distinct)
  then have "select_player (username l) tbl = [(cols l, rank_of tbl l)]"
    by (simp add: select_player_def)
  then show ?thesis
    using assms(1,4) rank_of_card [OF assms(2), of l]
    by (simp add: get_player_def)
qed

theorem rank_is_one_plus_greater_witness:
  "pool ranked_state = Some ranked_players
   \<and> distinct (map username ranked_players)
   \<and> map best_score ranked_players = [100, 80, 80, 50]
   \<and> get_player ranked_state ''Bea'' True
       = \<lparr>status = 200, body = Player (Some (cols (player ''bea'' 80), 2))\<rparr>
   \<and> get_player ranked_state ''cy'' True
       = \<lparr>status = 200, body = Player (Some (cols (player ''cy'' 80), 2))\<rparr>
   \<and> 1 + card {u. \<exists>r\<in>set ranked_players. username r = u \<and> best_score (player ''bea'' 80) < best_score r} = 2
   \<and> 1 + card {u. \<exists>r\<in>set ranked_players. username r = u \<and> best_score (player ''cy'' 80) < best_score r} = 2"
proof -
  have p: "pool ranked_state = Some ranked_players"
    by (simp add: ranked_state_def)
  have d: "distinct (map username ranked_players)"
    by code_simp
  have s: "map best_score ranked_players = [100, 80, 80, 50]"
    by code_simp
  have m1: "player ''bea'' 80 \<in> set ranked_players"
    and m2: "player ''cy'' 80 \<in> set ranked_players"
    by (simp_all add: ranked_players_def)
  have n1: "toLowerCase ''Bea'' = username (player ''bea'' 80)"
    and n2: "toLowerCase ''cy'' = username (player ''cy'' 80)"
    by code_simp+
  have g1: "get_player ranked_state ''Bea'' True
       = \<lparr>status = 200, body = Player (Some (cols (player ''bea'' 80), 2))\<rparr>"
    and g2: "get_player ranked_state ''cy'' True
       = \<lparr>status = 200, body = Player (Some (cols (player ''cy'' 80), 2))\<rparr>"
    by code_simp+
  from rank_is_one_plus_greater [OF p d m1 n1] g1
  have c1: "1 + card {u. \<exists>r\<in>set ranked_players. username r = u \<and> best_score (player ''bea'' 80) < best_score r} = 2"
    by simp
  from rank_is_one_plus_greater [OF p d m2 n2] g2
  have c2: "1 + card {u. \<exists>r\<in>set ranked_players. username r = u \<and> best_score (player ''cy'' 80) < best_score r} = 2"
    by simp
  from p d s g1 g2 c1 c2 show ?thesis
    by blast
qed

lemma effective_limit_range: "1 \<le> effective_limit q \<and> effective_limit q \<le> 100"
  by (simp add: effective_limit_def Let_def)

lemma effective_limit_absent: "effective_limit None = 50"
  by code_simp

lemma select_top_sorted:
  fixes tbl :: table and n :: nat
  shows "sorted_wrt (\<lambda>a b. best_score b \<le> best_score a) (take n (sort_key (\<lambda>r. - best_score r) tbl))"
    (is "sorted_wrt ?ge ?rs")
    and "length (take n (sort_key (\<lambda>r. - best_score r) tbl)) = min n (length tbl)"
    and "mset (take n (sort_key (\<lambda>r. - best_score r) tbl)) \<subseteq># mset tbl"
    and "\<forall>r \<in># mset tbl - mset (take n (sort_key (\<lambda>r. - best_score r) tbl)).
           \<forall>x \<in> set (take n (sort_key (\<lambda>r. - best_score r) tbl)). best_score r \<le> best_score x"
proof -
  let ?xs = "sort_key (\<lambda>r. - best_score r) tbl"
  have "sorted (map (\<lambda>r. - best_score r) ?xs)"
    by (rule sorted_sort_key)
  then have sw: "sorted_wrt ?ge ?xs"
    by (simp add: sorted_map)
  have split: "?xs = ?rs @ drop n ?xs"
    by simp
  from sw have sw': "sorted_wrt ?ge (?rs @ drop n ?xs)"
    by simp
  then have parts: "sorted_wrt ?ge ?rs
      \<and> (\<forall>x\<in>set ?rs. \<forall>y\<in>set (drop n ?xs). best_score y \<le> best_score x)"
    unfolding sorted_wrt_append by blast
  then show "sorted_wrt ?ge ?rs"
    by blast
  show "length ?rs = min n (length tbl)"
    by (simp add: min.commute)
  have m: "mset tbl = mset ?rs + mset (drop n ?xs)"
    by (metis split mset_append mset_sort)
  then show "mset ?rs \<subseteq># mset tbl"
    by simp
  from m have "mset tbl - mset ?rs = mset (drop n ?xs)"
    by simp
  with parts show "\<forall>r \<in># mset tbl - mset ?rs. \<forall>x \<in> set ?rs. best_score r \<le> best_score x"
    by (metis set_mset_mset)
qed

text \<open>
  C7, as stated, fails: \<open>parseInt(req.query.limit) || 50\<close> replaces a parsed 0 by the
  default before the clamp is applied, so a requested limit of 0 lists up to 50 rows.
\<close>

theorem limit_zero_counterexample:
  "parseInt ''0'' = Some 0
   \<and> effective_limit (Some ''0'') = 50
   \<and> get_leaderboard four_state (Some ''0'') True
       = \<lparr>status = 200,
          body = Rows [cols (player ''ann'' 100), cols (player ''bea'' 80),
                       cols (player ''cy'' 80), cols (player ''dan'' 50)]\<rparr>"
  by code_simp

text \<open>
  C7, amended. For every requested limit value, GET /api/leaderboard returns the rows
  sorted by best score descending, cut at an effective limit in the range 1..100: the
  integer parseInt reads from the value, clamped to 1..100, and 50 when no limit is
  supplied, when parseInt reads no number, or when it reads 0. The rows returned are
  rows of the table, as many as the limit allows, and none left out has a greater best
  score than one returned.
\<close>

theorem list_top_limit:
  "1 \<le> effective_limit q \<and> effective_limit q \<le> 100
   \<and> effective_limit None = 50
   \<and> (parseInt s = Some i \<and> i \<noteq> 0 \<longrightarrow> effective_limit (Some s) = min (max i 1) 100)
   \<and> (parseInt s = None \<or> parseInt s = Some 0 \<longrightarrow> effective_limit (Some s) = 50)
   \<and> (pool st = Some tbl \<longrightarrow>
        (\<exists>rs. get_leaderboard st q True = \<lparr>status = 200, body = Rows (map cols rs)\<rparr>
           \<and> sorted_wrt (\<lambda>a b. best_score b \<le> best_score a) rs
           \<and> length rs = min (nat (effective_limit q)) (length tbl)
           \<and> mset rs \<subseteq># mset tbl
           \<and> (\<forall>r \<in># mset tbl - mset rs. \<forall>x \<in> set rs. best_score r \<le> best_score x)))"
proof -
  have a: "parseInt s = Some i \<and> i \<noteq> 0 \<longrightarrow> effective_limit (Some s) = min (max i 1) 100"
    by (simp add: effective_limit_def)
  have b: "parseInt s = None \<or> parseInt s = Some 0 \<longrightarrow> effective_limit (Some s) = 50"
    by (auto simp: effective_limit_def)
  have c: "pool st = Some tbl \<longrightarrow>
        (\<exists>rs. get_leaderboard st q True = \<lparr>status = 200, body = Rows (map cols rs)\<rparr>
           \<and> sorted_wrt (\<lambda>a b. best_score b \<le> best_score a) rs
           \<and> length rs = min (nat (effective_limit q)) (length tbl)
           \<and> mset rs \<subseteq># mset tbl
           \<and> (\<forall>r \<in># mset tbl - mset rs. \<forall>x \<in> set rs. best_score r \<le> best_score x))"
  proof
    assume p: "pool st = Some tbl"
    let ?rs = "take (nat (effective_limit q)) (sort_key (\<lambda>r. - best_score r) tbl)"
    have "get_leaderboard st q True = \<lparr>status = 200, body = Rows (map cols ?rs)\<rparr>"
      using p by (simp add: get_leaderboard_def select_top_def)
    with select_top_sorted [where n = "nat (effective_limit q)" and tbl = tbl]
    show "\<exists>rs. get_leaderboard st q True = \<lparr>status = 200, body = Rows (map cols rs)\<rparr>
           \<and> sorted_wrt (\<lambda>a b. best_score b \<le> best_score a) rs
           \<and> length rs = min (nat (effective_limit q)) (length tbl)
           \<and> mset rs \<subseteq># mset tbl
           \<and> (\<forall>r \<in># mset tbl - mset rs. \<forall>x \<in> set rs. best_score r \<le> best_score x)"
      by blast
  qed
  from effective_limit_range [of q] effective_limit_absent a b c show ?thesis
    by blast
qed

theorem list_top_limit_witness:
  "effective_limit (Some ''0'') = 50
   \<and> effective_limit (Some ''abc'') = 50
   \<and> effective_limit (Some ''-3'') = 1
   \<and> effective_limit (Some ''2'') = 2
   \<and> effective_limit (Some ''1000'') = 100
   \<and> pool four_state = Some four_players
   \<and> get_leaderboard four_state (Some ''2'') True
       = \<lparr>status = 200, body = Rows [cols (player ''ann'' 100), cols (player ''bea'' 80)]\<rparr>
   \<and> (\<exists>rs. map cols rs = [cols (player ''ann'' 100), cols (player ''bea'' 80)]
         \<and> sorted_wrt (\<lambda>a b. best_score b \<le> best_score a) rs
         \<and> length rs = 2
         \<and> mset rs \<subseteq># mset four_players)"
proof -
  have z: "parseInt ''0'' = None \<or> parseInt ''0'' = Some 0"
    by code_simp
  have n: "parseInt ''abc'' = None \<or> parseInt ''abc'' = Some 0"
    by code_simp
  have m: "parseInt ''-3'' = Some (- 3) \<and> (- 3 :: int) \<noteq> 0"
    by code_simp
  have t: "parseInt ''2'' = Some 2 \<and> (2 :: int) \<noteq> 0"
    by code_simp
  have k: "parseInt ''1000'' = Some 1000 \<and> (1000 :: int) \<noteq> 0"
    by code_simp
  have p: "pool four_state = Some four_players"
    by (simp add: four_state_def)
  have c1: "effective_limit (Some ''0'') = 50"
    using list_top_limit [where s = "''0''" and i = 0 and q = None and st = four_state
        and tbl = four_players] z
    by blast
  have c2: "effective_limit (Some ''abc'') = 50"
    using list_top_limit [where s = "''abc''" and i = 0 and q = None and st = four_state
        and tbl = four_players] n
    by blast
  have c3: "effective_limit (Some ''-3'') = 1"
    using list_top_limit [where s = "''-3''" and i = "- 3" and q = None and st = four_state
        and tbl = four_players] m
    by simp
  have c4: "effective_limit (Some ''2'') = 2"
    using list_top_limit [where s = "''2''" and i = 2 and q = None and st = four_state
        and tbl = four_players] t
    by simp
  have c5: "effective_limit (Some ''1000'') = 100"
    using list_top_limit [where s = "''1000''" and i = 1000 and q = None and st = four_state
        and tbl = four_players] k
    by simp
  have g: "get_leaderboard four_state (Some ''2'') True
       = \<lparr>status = 200, body = Rows [cols (player ''ann'' 100), cols (player ''bea'' 80)]\<rparr>"
    by code_simp
  have l: "length four_players = 4"
    by (simp add: four_players_def)
  from list_top_limit [where s = "''2''" and i = 2 and q = "Some ''2''" and st = four_state
        and tbl = four_players] p
  obtain rs where r: "get_leaderboard four_state (Some ''2'') True
          = \<lparr>status = 200, body = Rows (map cols rs)\<rparr>"
      "sorted_wrt (\<lambda>a b. best_score b \<le> best_score a) rs"
      "length rs = min (nat (effective_limit (Some ''2''))) (length four_players)"
      "mset rs \<subseteq># mset four_players"
    by blast
  from r(1) g have "map cols rs = [cols (player ''ann'' 100), cols (player ''bea'' 80)]"
    by simp
  moreover from r(3) c4 l have "length rs = 2"
    by simp
  ultimately have e: "\<exists>rs. map cols rs = [cols (player ''ann'' 100), cols (player ''bea'' 80)]
         \<and> sorted_wrt (\<lambda>a b. best_score b \<le> best_score a) rs
         \<and> length rs = 2
         \<and> mset rs \<subseteq># mset four_players"
    using r(2,4) by (intro exI [of _ rs]) simp
  from c1 c2 c3 c4 c5 p g e show ?thesis
    by blast
qed

section \<open>Properties of the merge\<close>

lemma merge_row_fields:
  "username (merge_row r e) = username r"
  "f \<in> set numeric_fields \<Longrightarrow> f (merge_row r e) = max (f r) (f e)"
  "updated_at (merge_row r e) = updated_at e"
  by (auto simp: merge_row_def numeric_fields_def)


lemma lookup_upsert:
  "lookup (username e) (upsert e tbl)
     = Some (case lookup (username e) tbl of None \<Rightarrow> e | Some r \<Rightarrow> merge_row r e)"
  by (induction tbl) (simp_all add: lookup_def merge_row_fields(1))


lemma upsert_new:
  "lookup (username e) tbl = None \<Longrightarrow> upsert e tbl = tbl @ [e]"
  by (induction tbl) (auto simp: lookup_def split: if_splits)

text \<open>The statement keeps \<open>username\<close> unique.\<close>

lemma usernames_upsert:
  "set (map username (upsert e tbl)) = insert (username e) (set (map username tbl))"
  by (induction tbl) (auto simp: merge_row_fields(1))

lemma distinct_upsert:
  "distinct (map username tbl) \<Longrightarrow> distinct (map username (upsert e tbl))"
proof (induction tbl)
  case Nil
  then show ?case by simp
next
  case (Cons a tbl)
  show ?case
  proof (cases "username a = username e")
    case True
    with Cons.prems show ?thesis by (simp add: merge_row_fields(1))
  next
    case False
    with Cons show ?thesis
      using usernames_upsert [of e tbl] by auto
  qed
qed






lemma pg_integer_falsy:
  "\<not> truthy v \<Longrightarrow> pg_integer dec bits (floor_or_0 v) = Some 0"
  by (simp add: floor_or_0_def js_or_def Math_floor_def pg_integer_def)

lemma floor_or_0_number:
  "floor_or_0 (Number (Finite x)) = Finite (of_int \<lfloor>x\<rfloor>)"
  by (simp add: floor_or_0_def js_or_def Math_floor_def)

lemma pg_integer_number:
  assumes "\<bar>x\<bar> \<le> 2 ^ 53"
    and "pg_integer dec bits (floor_or_0 (Number (Finite x))) = Some i"
  shows "i = \<lfloor>x\<rfloor>"
proof -
  have "real_of_int \<lfloor>x\<rfloor> \<le> 2 ^ 53"
    using assms(1) by linarith
  moreover have "- (2 ^ 53) \<le> real_of_int \<lfloor>x\<rfloor>"
  proof -
    have "real_of_int (- (2 ^ 53)) \<le> x"
      using assms(1) by simp
    then have "- (2 ^ 53) \<le> \<lfloor>x\<rfloor>"
      by (simp only: le_floor_iff)
    then have "real_of_int (- (2 ^ 53)) \<le> real_of_int \<lfloor>x\<rfloor>"
      by (simp only: of_int_le_iff)
    then show ?thesis
      by simp
  qed
  ultimately have "\<bar>real_of_int \<lfloor>x\<rfloor>\<bar> \<le> 2 ^ 53"
    by linarith
  with assms(2) show ?thesis
    by (simp add: floor_or_0_number pg_integer_def Let_def split: if_splits)
qed

lemma excluded_fields:
  assumes "excluded dec rq u = Some e"
  shows "username e = u" and "updated_at e = db_now rq"
    and "pg_integer dec 64 (floor_or_0 (req_best_score rq)) = Some (best_score e)"
    and "pg_integer dec 64 (floor_or_0 (req_total_earned rq)) = Some (total_earned e)"
    and "pg_integer dec 32 (floor_or_0 (req_prestiges rq)) = Some (prestiges e)"
    and "pg_integer dec 64 (floor_or_0 (req_clicks rq)) = Some (clicks e)"
    and "pg_integer dec 32 (floor_or_0 (req_play_time rq)) = Some (play_time e)"
  using assms by (auto simp: excluded_def split: Option.bind_splits if_splits)

lemma excluded_stored:
  assumes "excluded dec rq u = Some e" and "(g, f) \<in> set body_fields"
  shows "(\<not> truthy (g rq) \<longrightarrow> f e = 0)
     \<and> (\<forall>x. g rq = Number (Finite x) \<and> \<bar>x\<bar> \<le> 2 ^ 53 \<longrightarrow> f e = \<lfloor>x\<rfloor>)"
proof -
  from assms(2) obtain bits where "pg_integer dec bits (floor_or_0 (g rq)) = Some (f e)"
    using excluded_fields(3-7) [OF assms(1)] by (auto simp: body_fields_def)
  then show ?thesis
    using pg_integer_falsy [of "g rq" dec bits] pg_integer_number [of _ dec bits "f e"]
    by auto
qed
















text \<open>
  C2, as stated, fails: \<open>Math.floor(best_score || 0)\<close> floors without clamping at zero,
  so a negative field is stored negative in the record that is created. A field that
  converts to NaN is not stored as 0 either: the statement fails and no record is created.
\<close>

theorem negative_field_counterexample:
  "lookup ''alice_01'' [] = None
   \<and> req_best_score negative_request = Number (Finite (- 5))
   \<and> post_leaderboard floor empty_state negative_request
       = (\<lparr>status = 200, body = Ok\<rparr>,
          \<lparr>pool = Some [\<lparr>username = ''alice_01'', best_score = - 5, total_earned = 2,
                          prestiges = 0, clicks = 7, play_time = 0,
                          updated_at = 1700000000000\<rparr>],
           submitTimes = [(Some ''10.0.0.1'', 1700000000000)], onlinePlayers = []\<rparr>)
   \<and> req_play_time failing_request = String ''abc'' NaN
   \<and> post_leaderboard floor empty_state failing_request
       = (\<lparr>status = 500, body = Error ''Failed to submit score''\<rparr>,
          \<lparr>pool = Some [], submitTimes = [(Some ''10.0.0.1'', 1700000000000)],
           onlinePlayers = []\<rparr>)"
  by code_simp

text \<open>
  C2, amended. When the statement runs for an identity with no record and succeeds, it
  appends one record for the identity whose five numeric fields are each
  \<open>Math.floor(field || 0)\<close>: a field that is missing, null, false, NaN, 0 or the empty
  string is stored as 0, and a Number of magnitude up to \<open>2^53\<close> is stored as its floor,
  a negative one included.
\<close>

theorem insert_stores_floor:
  assumes "post_leaderboard dec st rq = (rs, st')"
    and "status rs = 200"
    and "pool st = Some tbl"
    and "validate_username (req_username rq) = Inr u"
    and "lookup u tbl = None"
  shows "\<exists>r. pool st' = Some (tbl @ [r]) \<and> lookup u (tbl @ [r]) = Some r
     \<and> (\<forall>(g, f)\<in>set body_fields.
          (\<not> truthy (g rq) \<longrightarrow> f r = 0)
          \<and> (\<forall>x. g rq = Number (Finite x) \<and> \<bar>x\<bar> \<le> 2 ^ 53 \<longrightarrow> f r = \<lfloor>x\<rfloor>))"
proof -
  from post_accepted [OF assms(1,2)] assms(3,4)
  obtain e where e: "excluded dec rq u = Some e" and ue: "username e = u"
    and p: "pool st' = Some (upsert e tbl)"
    by auto
  from ue assms(5) have app: "upsert e tbl = tbl @ [e]"
    by (simp add: upsert_new)
  from ue have "lookup u (upsert e tbl) = Some e"
    using lookup_upsert [of e tbl] assms(5) by simp
  with app have l: "lookup u (tbl @ [e]) = Some e"
    by simp
  have "\<forall>(g, f)\<in>set body_fields.
          (\<not> truthy (g rq) \<longrightarrow> f e = 0)
          \<and> (\<forall>x. g rq = Number (Finite x) \<and> \<bar>x\<bar> \<le> 2 ^ 53 \<longrightarrow> f e = \<lfloor>x\<rfloor>)"
    using excluded_stored [OF e] by blast
  with p app l show ?thesis
    by auto
qed

theorem insert_stores_floor_witness:
  "status (fst (post_leaderboard floor empty_state negative_request)) = 200
   \<and> pool empty_state = Some []
   \<and> validate_username (req_username negative_request) = Inr ''alice_01''
   \<and> lookup ''alice_01'' [] = None
   \<and> (\<exists>r. pool (snd (post_leaderboard floor empty_state negative_request)) = Some ([] @ [r])
         \<and> lookup ''alice_01'' ([] @ [r]) = Some r
         \<and> (\<forall>(g, f)\<in>set body_fields.
              (\<not> truthy (g negative_request) \<longrightarrow> f r = 0)
              \<and> (\<forall>x. g negative_request = Number (Finite x) \<and> \<bar>x\<bar> \<le> 2 ^ 53 \<longrightarrow> f r = \<lfloor>x\<rfloor>)))
   \<and> pool (snd (post_leaderboard floor empty_state negative_request))
       = Some [\<lparr>username = ''alice_01'', best_score = - 5, total_earned = 2, prestiges = 0,
                 clicks = 7, play_time = 0, updated_at = 1700000000000\<rparr>]"
proof -
  let ?post = "post_leaderboard floor empty_state negative_request"
  have h1: "?post = (fst ?post, snd ?post)"
    by simp
  have h2: "status (fst ?post) = 200"
    by code_simp
  have h3: "pool empty_state = Some []"
    by (simp add: empty_state_def)
  have h4: "validate_username (req_username negative_request) = Inr ''alice_01''"
    by code_simp
  have h5: "lookup ''alice_01'' [] = None"
    by (simp add: lookup_def)
  have c: "\<exists>r. pool (snd ?post) = Some ([] @ [r])
         \<and> lookup ''alice_01'' ([] @ [r]) = Some r
         \<and> (\<forall>(g, f)\<in>set body_fields.
              (\<not> truthy (g negative_request) \<longrightarrow> f r = 0)
              \<and> (\<forall>x. g negative_request = Number (Finite x) \<and> \<bar>x\<bar> \<le> 2 ^ 53 \<longrightarrow> f r = \<lfloor>x\<rfloor>))"
    by (rule insert_stores_floor [OF h1 h2 h3 h4 h5])
  have v: "pool (snd ?post)
       = Some [\<lparr>username = ''alice_01'', best_score = - 5, total_earned = 2, prestiges = 0,
                 clicks = 7, play_time = 0, updated_at = 1700000000000\<rparr>]"
    by code_simp
  from h2 h3 h4 h5 c v show ?thesis
    by (intro conjI)
qed

lemma excluded_same_snapshot:
  assumes "req_best_score rq' = req_best_score rq"
    and "req_total_earned rq' = req_total_earned rq"
    and "req_prestiges rq' = req_prestiges rq"
    and "req_clicks rq' = req_clicks rq"
    and "req_play_time rq' = req_play_time rq"
    and "excluded dec rq u = Some e"
  shows "excluded dec rq' u = Some (e\<lparr>updated_at := db_now rq'\<rparr>)"
  using assms by (auto simp: excluded_def split: Option.bind_splits if_splits)

lemma upsert_absorbed:
  assumes "lookup (username e) tbl = Some r"
    and "\<forall>f\<in>set numeric_fields. f e \<le> f r"
  shows "map cols (upsert e tbl) = map cols tbl
     \<and> lookup (username e) (upsert e tbl) = Some (r\<lparr>updated_at := updated_at e\<rparr>)"
  using assms
proof (induction tbl)
  case Nil
  then show ?case by (simp add: lookup_def)
next
  case (Cons a tbl)
  show ?case
  proof (cases "username a = username e")
    case True
    with Cons.prems(1) have ra: "r = a"
      by (simp add: lookup_def)
    with Cons.prems(2) have "merge_row a e = a\<lparr>updated_at := updated_at e\<rparr>"
      by (simp add: merge_row_def numeric_fields_def max_absorb1)
    with True ra show ?thesis
      by (simp add: lookup_def cols_def)
  next
    case False
    with Cons.prems(1) have "lookup (username e) tbl = Some r"
      by (simp add: lookup_def)
    with Cons.IH Cons.prems(2) False show ?thesis
      by (simp add: lookup_def)
  qed
qed

lemma upsert_dominates:
  "\<exists>r. lookup (username e) (upsert e tbl) = Some r \<and> (\<forall>f\<in>set numeric_fields. f e \<le> f r)"
  by (cases "lookup (username e) tbl") (simp_all add: lookup_upsert merge_row_fields(2))

text \<open>
  C8, as stated, fails: every accepted submission sets \<open>updated_at = NOW()\<close>, so the
  second submission of the same snapshot changes the stored record.
\<close>

theorem resubmission_counterexample:
  "req_username (later_request 20000) = req_username sample_request
   \<and> req_best_score (later_request 20000) = req_best_score sample_request
   \<and> req_total_earned (later_request 20000) = req_total_earned sample_request
   \<and> req_prestiges (later_request 20000) = req_prestiges sample_request
   \<and> req_clicks (later_request 20000) = req_clicks sample_request
   \<and> req_play_time (later_request 20000) = req_play_time sample_request
   \<and> status (fst (post_leaderboard floor empty_state sample_request)) = 200
   \<and> status (fst (post_leaderboard floor (snd (post_leaderboard floor empty_state sample_request))
         (later_request 20000))) = 200
   \<and> pool (snd (post_leaderboard floor empty_state sample_request))
       = Some [\<lparr>username = ''alice_01'', best_score = 100, total_earned = 2, prestiges = 0,
                 clicks = 7, play_time = 0, updated_at = 1700000000000\<rparr>]
   \<and> pool (snd (post_leaderboard floor (snd (post_leaderboard floor empty_state sample_request))
         (later_request 20000)))
       = Some [\<lparr>username = ''alice_01'', best_score = 100, total_earned = 2, prestiges = 0,
                 clicks = 7, play_time = 0, updated_at = 1700000020000\<rparr>]
   \<and> pool (snd (post_leaderboard floor (snd (post_leaderboard floor empty_state sample_request))
         (later_request 20000)))
       \<noteq> pool (snd (post_leaderboard floor empty_state sample_request))"
proof -
  let ?a = "post_leaderboard floor empty_state sample_request"
  let ?b = "post_leaderboard floor (snd ?a) (later_request 20000)"
  have same: "req_username (later_request 20000) = req_username sample_request
      \<and> req_best_score (later_request 20000) = req_best_score sample_request
      \<and> req_total_earned (later_request 20000) = req_total_earned sample_request
      \<and> req_prestiges (later_request 20000) = req_prestiges sample_request
      \<and> req_clicks (later_request 20000) = req_clicks sample_request
      \<and> req_play_time (later_request 20000) = req_play_time sample_request"
    by (simp add: later_request_def)
  have ok: "status (fst ?a) = 200 \<and> status (fst ?b) = 200"
    by code_simp
  have pa: "pool (snd ?a)
       = Some [\<lparr>username = ''alice_01'', best_score = 100, total_earned = 2, prestiges = 0,
                 clicks = 7, play_time = 0, updated_at = 1700000000000\<rparr>]"
    by code_simp
  have pb: "pool (snd ?b)
       = Some [\<lparr>username = ''alice_01'', best_score = 100, total_earned = 2, prestiges = 0,
                 clicks = 7, play_time = 0, updated_at = 1700000020000\<rparr>]"
    by code_simp
  have "pool (snd ?b) \<noteq> pool (snd ?a)"
    by (simp add: pa pb)
  with same ok pa pb show ?thesis
    by (intro conjI) simp_all
qed

text \<open>
  C8, amended. After an accepted submission, a second accepted submission of the same
  snapshot leaves the identity and the five numeric fields of every record as they are;
  it changes the identity's record only in \<open>updated_at\<close>, set to the time of the second
  submission.
\<close>

theorem resubmission_keeps_fields:
  assumes "post_leaderboard dec st rq = (rs, mid)"
    and "status rs = 200"
    and "post_leaderboard dec mid rq' = (rs', fin)"
    and "status rs' = 200"
    and "req_username rq' = req_username rq"
    and "req_best_score rq' = req_best_score rq"
    and "req_total_earned rq' = req_total_earned rq"
    and "req_prestiges rq' = req_prestiges rq"
    and "req_clicks rq' = req_clicks rq"
    and "req_play_time rq' = req_play_time rq"
  shows "\<exists>ta tb u r. pool mid = Some ta \<and> pool fin = Some tb
     \<and> validate_username (req_username rq) = Inr u
     \<and> lookup u ta = Some r
     \<and> lookup u tb = Some (r\<lparr>updated_at := db_now rq'\<rparr>)
     \<and> map cols tb = map cols ta"
proof -
  from post_accepted [OF assms(1,2)]
  obtain tbl u e where v: "validate_username (req_username rq) = Inr u"
    and e: "excluded dec rq u = Some e" and ue: "username e = u"
    and mid: "pool mid = Some (upsert e tbl)"
    by auto
  let ?e' = "e\<lparr>updated_at := db_now rq'\<rparr>"
  have e': "excluded dec rq' u = Some ?e'"
    using assms(6-10) e by (rule excluded_same_snapshot)
  from post_accepted [OF assms(3,4)] mid v assms(5) e'
  have fin: "pool fin = Some (upsert ?e' (upsert e tbl))"
    by auto
  from upsert_dominates [of e tbl] ue
  obtain r where r: "lookup u (upsert e tbl) = Some r"
    and ge: "\<forall>f\<in>set numeric_fields. f e \<le> f r"
    by auto
  from ge have ge': "\<forall>f\<in>set numeric_fields. f ?e' \<le> f r"
    by (simp add: numeric_fields_def)
  from r ue have r': "lookup (username ?e') (upsert e tbl) = Some r"
    by simp
  from upsert_absorbed [OF r' ge'] ue
  have "map cols (upsert ?e' (upsert e tbl)) = map cols (upsert e tbl)"
    and "lookup u (upsert ?e' (upsert e tbl)) = Some (r\<lparr>updated_at := db_now rq'\<rparr>)"
    by simp_all
  with mid fin v r show ?thesis
    by blast
qed

theorem resubmission_keeps_fields_witness:
  "status (fst (post_leaderboard floor alice_state sample_request)) = 200
   \<and> status (fst (post_leaderboard floor (snd (post_leaderboard floor alice_state sample_request))
         (later_request 20000))) = 200
   \<and> (\<exists>ta tb u r. pool (snd (post_leaderboard floor alice_state sample_request)) = Some ta
         \<and> pool (snd (post_leaderboard floor (snd (post_leaderboard floor alice_state sample_request))
               (later_request 20000))) = Some tb
         \<and> validate_username (req_username sample_request) = Inr u
         \<and> lookup u ta = Some r
         \<and> lookup u tb = Some (r\<lparr>updated_at := db_now (later_request 20000)\<rparr>)
         \<and> map cols tb = map cols ta)
   \<and> pool (snd (post_leaderboard floor (snd (post_leaderboard floor alice_state sample_request))
         (later_request 20000)))
       = Some [\<lparr>username = ''alice_01'', best_score = 150, total_earned = 2, prestiges = 4,
                 clicks = 7, play_time = 9, updated_at = 1700000020000\<rparr>]"
proof -
  let ?a = "post_leaderboard floor alice_state sample_request"
  let ?b = "post_leaderboard floor (snd ?a) (later_request 20000)"
  have h1: "?a = (fst ?a, snd ?a)"
    by simp
  have h2: "status (fst ?a) = 200"
    by code_simp
  have h3: "?b = (fst ?b, snd ?b)"
    by simp
  have h4: "status (fst ?b) = 200"
    by code_simp
  have s1: "req_username (later_request 20000) = req_username sample_request"
    and s2: "req_best_score (later_request 20000) = req_best_score sample_request"
    and s3: "req_total_earned (later_request 20000) = req_total_earned sample_request"
    and s4: "req_prestiges (later_request 20000) = req_prestiges sample_request"
    and s5: "req_clicks (later_request 20000) = req_clicks sample_request"
    and s6: "req_play_time (later_request 20000) = req_play_time sample_request"
    by (simp_all add: later_request_def)
  have c: "\<exists>ta tb u r. pool (snd ?a) = Some ta \<and> pool (snd ?b) = Some tb
         \<and> validate_username (req_username sample_request) = Inr u
         \<and> lookup u ta = Some r
         \<and> lookup u tb = Some (r\<lparr>updated_at := db_now (later_request 20000)\<rparr>)
         \<and> map cols tb = map cols ta"
    by (rule resubmission_keeps_fields [OF h1 h2 h3 h4 s1 s2 s3 s4 s5 s6])
  have v: "pool (snd ?b)
       = Some [\<lparr>username = ''alice_01'', best_score = 150, total_earned = 2, prestiges = 4,
                 clicks = 7, play_time = 9, updated_at = 1700000020000\<rparr>]"
    by code_simp
  from h2 h4 c v show ?thesis
    by (intro conjI)
qed

end
